theory Spec2Isabelle
  imports Main "HOL-Library.Sublist"
begin

section \<open>Text\<close>

text \<open>
  Python strings are sequences of code points. A \<^typ>\<open>string\<close> here is the sequence of
  the code points of a text whose code points are all below 256, so \<^const>\<open>length\<close> is
  Python's \<^verbatim>\<open>len\<close>. The functions of this section are \<^verbatim>\<open>str.lower\<close>, the \<^verbatim>\<open>in\<close>
  operator on strings, \<^verbatim>\<open>str.split\<close> without arguments and \<^verbatim>\<open>str.join\<close> on that range.
\<close>

definition upper_chars :: string where
  "upper_chars = ''ABCDEFGHIJKLMNOPQRSTUVWXYZ'' @
     [CHR 0xC0, CHR 0xC1, CHR 0xC2, CHR 0xC3, CHR 0xC4, CHR 0xC5, CHR 0xC6, CHR 0xC7,
      CHR 0xC8, CHR 0xC9, CHR 0xCA, CHR 0xCB, CHR 0xCC, CHR 0xCD, CHR 0xCE, CHR 0xCF,
      CHR 0xD0, CHR 0xD1, CHR 0xD2, CHR 0xD3, CHR 0xD4, CHR 0xD5, CHR 0xD6,
      CHR 0xD8, CHR 0xD9, CHR 0xDA, CHR 0xDB, CHR 0xDC, CHR 0xDD, CHR 0xDE]"

definition lower_chars :: string where
  "lower_chars = ''abcdefghijklmnopqrstuvwxyz'' @
     [CHR 0xE0, CHR 0xE1, CHR 0xE2, CHR 0xE3, CHR 0xE4, CHR 0xE5, CHR 0xE6, CHR 0xE7,
      CHR 0xE8, CHR 0xE9, CHR 0xEA, CHR 0xEB, CHR 0xEC, CHR 0xED, CHR 0xEE, CHR 0xEF,
      CHR 0xF0, CHR 0xF1, CHR 0xF2, CHR 0xF3, CHR 0xF4, CHR 0xF5, CHR 0xF6,
      CHR 0xF8, CHR 0xF9, CHR 0xFA, CHR 0xFB, CHR 0xFC, CHR 0xFD, CHR 0xFE]"

definition lower_char :: "char \<Rightarrow> char" where
  "lower_char c = (case map_of (zip upper_chars lower_chars) c of Some d \<Rightarrow> d | None \<Rightarrow> c)"

definition lower :: "string \<Rightarrow> string" where
  "lower s = map lower_char s"

text \<open>\<^verbatim>\<open>sub in text\<close>: \<open>sub\<close> occurs in \<open>text\<close> as a contiguous substring.\<close>

fun str_in :: "string \<Rightarrow> string \<Rightarrow> bool" where
  "str_in sub [] = (sub = [])"
| "str_in sub (c # cs) = (prefix sub (c # cs) \<or> str_in sub cs)"

text \<open>The characters for which \<^verbatim>\<open>str.isspace\<close> holds (also the class \<^verbatim>\<open>\s\<close> of \<^verbatim>\<open>re\<close>).\<close>

definition is_space :: "char \<Rightarrow> bool" where
  "is_space c \<longleftrightarrow> c \<in> set [CHR 0x09, CHR 0x0A, CHR 0x0B, CHR 0x0C, CHR 0x0D,
                           CHR 0x1C, CHR 0x1D, CHR 0x1E, CHR 0x1F, CHR 0x20, CHR 0x85, CHR 0xA0]"

text \<open>\<^verbatim>\<open>s.split()\<close>: the maximal runs of characters that are not whitespace.\<close>

fun split_from :: "string \<Rightarrow> string \<Rightarrow> string list" where
  "split_from cur [] = (if cur = [] then [] else [cur])"
| "split_from cur (c # cs) =
     (if is_space c then (if cur = [] then split_from [] cs else cur # split_from [] cs)
      else split_from (cur @ [c]) cs)"

definition split :: "string \<Rightarrow> string list" where
  "split s = split_from [] s"

fun join :: "string \<Rightarrow> string list \<Rightarrow> string" where
  "join sep [] = []"
| "join sep [x] = x"
| "join sep (x # y # ys) = x @ sep @ join sep (y # ys)"

text \<open>Decimal digits: the class \<^verbatim>\<open>\d\<close> of \<^verbatim>\<open>re\<close> on this range, and \<^verbatim>\<open>int(...)\<close> on a
  string of them.\<close>

definition is_digit :: "char \<Rightarrow> bool" where
  "is_digit c \<longleftrightarrow> c \<in> set ''0123456789''"

definition digit_value :: "char \<Rightarrow> int" where
  "digit_value c = (case map_of (zip ''0123456789'' [0, 1, 2, 3, 4, 5, 6, 7, 8, 9]) c of
                      Some d \<Rightarrow> d | None \<Rightarrow> 0)"

fun int_of_digits_from :: "int \<Rightarrow> string \<Rightarrow> int" where
  "int_of_digits_from acc [] = acc"
| "int_of_digits_from acc (c # cs) = int_of_digits_from (10 * acc + digit_value c) cs"

definition int_of_digits :: "string \<Rightarrow> int" where
  "int_of_digits s = int_of_digits_from 0 s"

fun dec_nat :: "nat \<Rightarrow> string" where
  "dec_nat n = (if n < 10 then [''0123456789'' ! n]
                else dec_nat (n div 10) @ [''0123456789'' ! (n mod 10)])"

declare dec_nat.simps [simp del]

definition dec_int :: "int \<Rightarrow> string" where
  "dec_int i = (if i < 0 then CHR ''-'' # dec_nat (nat (- i)) else dec_nat (nat i))"

section \<open>JSON values and \<^verbatim>\<open>json.dumps\<close>\<close>

text \<open>
  The specifications of a product are a dictionary read from a JSON file. Objects keep
  their keys in insertion order. Numbers are integers here; fractional numbers are not
  modelled.
\<close>

datatype json =
    JNull
  | JBool bool
  | JInt int
  | JStr string
  | JList "json list"
  | JObj "(string \<times> json) list"

text \<open>
  \<^verbatim>\<open>json.dumps\<close> with its defaults: \<^verbatim>\<open>ensure_ascii=True\<close>, the separators \<^verbatim>\<open>", "\<close> and
  \<^verbatim>\<open>": "\<close>. Inside a string the quote and the backslash are escaped, the control
  characters have their short escapes, and every other character outside the printable
  ASCII range is written \<^verbatim>\<open>\u00XX\<close>.
\<close>

definition hex_digit :: "nat \<Rightarrow> char" where
  "hex_digit d = ''0123456789abcdef'' ! d"

definition escape_char :: "char \<Rightarrow> string" where
  "escape_char c =
     (if c = CHR 0x22 then [CHR 0x5C, CHR 0x22]
      else if c = CHR 0x5C then [CHR 0x5C, CHR 0x5C]
      else if c = CHR 0x0A then [CHR 0x5C, CHR ''n'']
      else if c = CHR 0x0D then [CHR 0x5C, CHR ''r'']
      else if c = CHR 0x09 then [CHR 0x5C, CHR ''t'']
      else if c = CHR 0x08 then [CHR 0x5C, CHR ''b'']
      else if c = CHR 0x0C then [CHR 0x5C, CHR ''f'']
      else if 32 \<le> (of_char c :: nat) \<and> (of_char c :: nat) \<le> 126 then [c]
      else [CHR 0x5C, CHR ''u'', CHR ''0'', CHR ''0'',
            hex_digit ((of_char c :: nat) div 16), hex_digit ((of_char c :: nat) mod 16)])"

definition dumps_str :: "string \<Rightarrow> string" where
  "dumps_str s = [CHR 0x22] @ concat (map escape_char s) @ [CHR 0x22]"

fun json_dumps :: "json \<Rightarrow> string" where
  "json_dumps JNull = ''null''"
| "json_dumps (JBool b) = (if b then ''true'' else ''false'')"
| "json_dumps (JInt i) = dec_int i"
| "json_dumps (JStr s) = dumps_str s"
| "json_dumps (JList xs) = ''['' @ join '', '' (map json_dumps xs) @ '']''"
| "json_dumps (JObj kvs) =
     ''{'' @ join '', '' (map (\<lambda>(k, v). dumps_str k @ '': '' @ json_dumps v) kvs) @ ''}''"

section \<open>The data model (\<^verbatim>\<open>models.py\<close>)\<close>

datatype ProductCategory =
  TV | REFRIGERATOR | WASHING_MACHINE | DRYER | AC | SOUNDBAR | PROJECTOR | DISHWASHER

text \<open>The value of each member of the enumeration.\<close>

fun category_value :: "ProductCategory \<Rightarrow> string" where
  "category_value TV = ''tv''"
| "category_value REFRIGERATOR = ''refrigerator''"
| "category_value WASHING_MACHINE = ''washing_machine''"
| "category_value DRYER = ''dryer''"
| "category_value AC = ''ac''"
| "category_value SOUNDBAR = ''soundbar''"
| "category_value PROJECTOR = ''projector''"
| "category_value DISHWASHER = ''dishwasher''"

definition all_categories :: "ProductCategory list" where
  "all_categories = [TV, REFRIGERATOR, WASHING_MACHINE, DRYER, AC, SOUNDBAR, PROJECTOR, DISHWASHER]"

text \<open>\<^verbatim>\<open>ProductCategory(s)\<close>: the member whose value is \<open>s\<close>; \<open>None\<close> is the \<^verbatim>\<open>ValueError\<close>
  that the lookup raises for any other string.\<close>

definition ProductCategory_of :: "string \<Rightarrow> ProductCategory option" where
  "ProductCategory_of s = find (\<lambda>c. category_value c = s) all_categories"

record Product =
  ident :: string
  name :: string
  category :: ProductCategory
  brand :: string
  specs :: json
  features :: "string list"
  url :: "string option"
  sizes :: "string list"

text \<open>The field \<^verbatim>\<open>category\<close> of a parsed query is \<open>category_q\<close> here, since a product has a
  field of that name too; the field \<^verbatim>\<open>keywords\<close> is \<open>keywords_q\<close>.\<close>

record ParsedQuery =
  category_q :: "string option"
  use_case :: "string option"
  room_size :: "string option"
  family_size :: "int option"
  capacity :: "string option"
  size_preference :: "string option"
  must_have_features :: "string list"
  keywords_q :: "string list"

text \<open>\<^verbatim>\<open>ParsedQuery()\<close>: every field at its default.\<close>

definition empty_query :: ParsedQuery where
  "empty_query = \<lparr>category_q = None, use_case = None, room_size = None, family_size = None,
                   capacity = None, size_preference = None, must_have_features = [],
                   keywords_q = []\<rparr>"

section \<open>The scoring engine (\<^verbatim>\<open>recommendation_engine.py\<close>)\<close>

subsection \<open>Capacity patterns\<close>

text \<open>
  \<^verbatim>\<open>re.search(r'(\d+)\s*L', name, re.IGNORECASE)\<close> and the same with \<^verbatim>\<open>kg\<close>. A match at
  a position is a run of digits, then whitespace, then the unit in either case; the
  greedy repetitions take the maximal runs, and giving characters back never helps,
  since the next character would be a digit or a whitespace character and not the unit.
  The search tries the positions from left to right and returns the digits (group 1)
  of the first match.
\<close>

definition match_capacity :: "string \<Rightarrow> string \<Rightarrow> string option" where
  "match_capacity unit s =
     (let digits = takeWhile is_digit s;
          rest = dropWhile is_space (dropWhile is_digit s)
      in if digits \<noteq> [] \<and> lower (take (length unit) rest) = unit then Some digits else None)"

fun search_capacity :: "string \<Rightarrow> string \<Rightarrow> string option" where
  "search_capacity unit [] = None"
| "search_capacity unit (c # cs) =
     (case match_capacity unit (c # cs) of
        Some digits \<Rightarrow> Some digits
      | None \<Rightarrow> search_capacity unit cs)"

subsection \<open>\<^verbatim>\<open>_use_case_score\<close>\<close>

definition tv_bonus :: "string \<Rightarrow> string \<Rightarrow> string \<Rightarrow> int" where
  "tv_bonus uc features_text specs_text =
     (if str_in ''gaming'' uc \<or> str_in ''game'' uc then
        (if str_in ''120hz'' specs_text \<or> str_in ''144hz'' specs_text \<or> str_in ''165hz'' specs_text
         then 15 else 0) +
        (if str_in ''game mode'' features_text \<or> str_in ''game bar'' features_text then 10 else 0) +
        (if str_in ''vrr'' specs_text \<or> str_in ''allm'' specs_text then 5 else 0)
      else 0) +
     (if str_in ''movie'' uc \<or> str_in ''cinema'' uc then
        (if str_in ''dolby vision'' specs_text \<or> str_in ''dolby atmos'' features_text then 15 else 0) +
        (if str_in ''hdr'' specs_text then 10 else 0) +
        (if str_in ''oled'' specs_text \<or> str_in ''miniled'' specs_text \<or> str_in ''mini-led'' specs_text
         then 10 else 0)
      else 0) +
     (if str_in ''sport'' uc then
        (if str_in ''sports mode'' features_text \<or> str_in ''ai sports'' features_text then 15 else 0) +
        (if str_in ''memc'' specs_text \<or> str_in ''motion'' features_text then 10 else 0)
      else 0)"

text \<open>\<^verbatim>\<open>if parsed.family_size:\<close> holds for an integer other than zero.\<close>

definition refrigerator_bonus :: "Product \<Rightarrow> ParsedQuery \<Rightarrow> int" where
  "refrigerator_bonus product parsed =
     (case family_size parsed of
        None \<Rightarrow> 0
      | Some fs \<Rightarrow>
          if fs = 0 then 0
          else (case search_capacity ''l'' (name product) of
                  None \<Rightarrow> 0
                | Some digits \<Rightarrow>
                    (let cap = int_of_digits digits; ideal = fs * 100
                     in if \<bar>cap - ideal\<bar> < 100 then 15
                        else if \<bar>cap - ideal\<bar> < 200 then 10 else 0)))"

definition washing_machine_family_bonus :: "Product \<Rightarrow> ParsedQuery \<Rightarrow> int" where
  "washing_machine_family_bonus product parsed =
     (case family_size parsed of
        None \<Rightarrow> 0
      | Some fs \<Rightarrow>
          if fs = 0 then 0
          else (case search_capacity ''kg'' (name product) of
                  None \<Rightarrow> 0
                | Some digits \<Rightarrow>
                    (let cap = int_of_digits digits; ideal = fs * 2
                     in if \<bar>cap - ideal\<bar> \<le> 2 then 15
                        else if \<bar>cap - ideal\<bar> \<le> 4 then 10 else 0)))"

definition washing_machine_smart_bonus :: "string \<Rightarrow> string \<Rightarrow> int" where
  "washing_machine_smart_bonus uc features_text =
     (if str_in ''smart'' uc \<or> str_in ''connected'' uc then
        (if str_in ''connect'' features_text \<or> str_in ''app'' features_text then 10 else 0)
      else 0)"

definition ac_bonus :: "ParsedQuery \<Rightarrow> string \<Rightarrow> string \<Rightarrow> int" where
  "ac_bonus parsed features_text specs_text =
     (let rs = lower (case room_size parsed of None \<Rightarrow> [] | Some r \<Rightarrow> r)
      in (if str_in ''large'' rs \<or> str_in ''living'' rs then
            (if str_in ''2 ton'' specs_text \<or> str_in ''24000'' specs_text then 15 else 0)
          else if str_in ''small'' rs \<or> str_in ''bedroom'' rs then
            (if str_in ''1 ton'' specs_text \<or> str_in ''1.5 ton'' specs_text then 15 else 0)
          else 0) +
         (if str_in ''inverter'' features_text \<or> str_in ''inverter'' specs_text then 5 else 0))"

definition soundbar_bonus :: "Product \<Rightarrow> string \<Rightarrow> string \<Rightarrow> string \<Rightarrow> int" where
  "soundbar_bonus product uc features_text specs_text =
     (if str_in ''movie'' uc \<or> str_in ''cinema'' uc then
        (if str_in ''dolby atmos'' features_text \<or> str_in ''atmos'' specs_text then 15 else 0)
      else 0) +
     (if str_in ''bass'' uc \<or> str_in ''music'' uc then
        (if str_in ''subwoofer'' (lower (name product)) \<or> str_in ''subwoofer'' specs_text
         then 10 else 0)
      else 0)"

definition projector_bonus :: "Product \<Rightarrow> string \<Rightarrow> string \<Rightarrow> int" where
  "projector_bonus product uc specs_text =
     (if str_in ''cinema'' uc \<or> str_in ''movie'' uc then
        (if str_in ''laser'' (lower (name product)) \<or> str_in ''4k'' specs_text then 15 else 0) +
        (if str_in ''dolby'' specs_text then 10 else 0)
      else 0)"

text \<open>The two texts that both scoring functions compute for a product:
  \<^verbatim>\<open>" ".join(product.features).lower()\<close> and \<^verbatim>\<open>json.dumps(product.specs).lower()\<close>.\<close>

definition features_text :: "Product \<Rightarrow> string" where
  "features_text product = lower (join '' '' (features product))"

definition specs_text :: "Product \<Rightarrow> string" where
  "specs_text product = lower (json_dumps (specs product))"

definition use_case_score :: "Product \<Rightarrow> ParsedQuery \<Rightarrow> int" where
  "use_case_score product parsed =
     (let uc = lower (case use_case parsed of None \<Rightarrow> [] | Some u \<Rightarrow> u)
      in case category product of
           TV \<Rightarrow> tv_bonus uc (features_text product) (specs_text product)
         | REFRIGERATOR \<Rightarrow> refrigerator_bonus product parsed
         | WASHING_MACHINE \<Rightarrow>
             washing_machine_family_bonus product parsed
             + washing_machine_smart_bonus uc (features_text product)
         | AC \<Rightarrow> ac_bonus parsed (features_text product) (specs_text product)
         | SOUNDBAR \<Rightarrow> soundbar_bonus product uc (features_text product) (specs_text product)
         | PROJECTOR \<Rightarrow> projector_bonus product uc (specs_text product)
         | DRYER \<Rightarrow> 0
         | DISHWASHER \<Rightarrow> 0)"

subsection \<open>\<^verbatim>\<open>_score_products\<close>\<close>

text \<open>
  The body of the loop over the products, in the order of the source. Each part takes
  the running score and returns it updated. A test on an optional string, as in
  \<^verbatim>\<open>if parsed.category:\<close>, holds for a string that is present and not empty.
\<close>

definition category_step :: "Product \<Rightarrow> ParsedQuery \<Rightarrow> int \<Rightarrow> int" where
  "category_step product parsed score =
     (case category_q parsed of
        None \<Rightarrow> score
      | Some c \<Rightarrow>
          if c = [] then score
          else (case ProductCategory_of (lower c) of
                  Some cat \<Rightarrow> if category product = cat then score + 15 else score
                | None \<Rightarrow> score))"

fun name_keyword_loop :: "Product \<Rightarrow> string list \<Rightarrow> int \<Rightarrow> int" where
  "name_keyword_loop product [] score = score"
| "name_keyword_loop product (keyword # rest) score =
     name_keyword_loop product rest
       (if str_in (lower keyword) (lower (name product)) then score + 10 else score)"

fun feature_keyword_loop :: "Product \<Rightarrow> string list \<Rightarrow> int \<Rightarrow> int" where
  "feature_keyword_loop product [] score = score"
| "feature_keyword_loop product (keyword # rest) score =
     feature_keyword_loop product rest
       (if str_in (lower keyword) (features_text product)
           \<or> str_in (lower keyword) (specs_text product)
        then score + 5 else score)"

fun query_term_loop :: "Product \<Rightarrow> string list \<Rightarrow> int \<Rightarrow> int" where
  "query_term_loop product [] score = score"
| "query_term_loop product (term # rest) score =
     query_term_loop product rest
       (if length term > 3 then
          (let score1 = (if str_in term (lower (name product)) then score + 3 else score)
           in if str_in term (features_text product) \<or> str_in term (specs_text product)
              then score1 + 2 else score1)
        else score)"

definition size_preference_step :: "Product \<Rightarrow> ParsedQuery \<Rightarrow> int \<Rightarrow> int" where
  "size_preference_step product parsed score =
     (case size_preference parsed of
        None \<Rightarrow> score
      | Some sp \<Rightarrow>
          if sp = [] then score
          else (let size_pref = lower sp;
                    score1 = (if list_ex (\<lambda>s. str_in size_pref (lower s)) (sizes product)
                              then score + 15 else score)
                in if str_in size_pref (specs_text product) then score1 + 10 else score1))"

definition capacity_step :: "Product \<Rightarrow> ParsedQuery \<Rightarrow> int \<Rightarrow> int" where
  "capacity_step product parsed score =
     (case capacity parsed of
        None \<Rightarrow> score
      | Some cp \<Rightarrow>
          if cp = [] then score
          else (let cap = lower cp
                in if str_in cap (lower (name product)) \<or> str_in cap (specs_text product)
                   then score + 15 else score))"

definition score_product :: "Product \<Rightarrow> ParsedQuery \<Rightarrow> string \<Rightarrow> int" where
  "score_product product parsed query =
     (let query_lower = lower query;
          score = 50;
          score = category_step product parsed score;
          kws = keywords_q parsed @ must_have_features parsed;
          score = name_keyword_loop product kws score;
          score = feature_keyword_loop product kws score;
          query_terms = split query_lower;
          score = query_term_loop product query_terms score;
          score = size_preference_step product parsed score;
          score = capacity_step product parsed score;
          score = score + use_case_score product parsed
      in min score 100)"

record scored =
  product :: Product
  score :: int

definition score_products :: "Product list \<Rightarrow> ParsedQuery \<Rightarrow> string \<Rightarrow> scored list" where
  "score_products products parsed query =
     map (\<lambda>p. \<lparr>product = p, score = score_product p parsed query\<rparr>) products"

section \<open>The catalog store (\<^verbatim>\<open>database.py\<close>)\<close>

text \<open>The store holds the list \<^verbatim>\<open>self.products\<close>; it is the first argument of each
  operation.\<close>

definition get_product_by_id :: "Product list \<Rightarrow> string \<Rightarrow> Product option" where
  "get_product_by_id products pid = find (\<lambda>p. ident p = pid) products"

text \<open>\<^verbatim>\<open>if brands:\<close> holds for a list that is present and not empty.\<close>

definition filter_products ::
  "Product list \<Rightarrow> string option \<Rightarrow> string list option \<Rightarrow> Product list" where
  "filter_products products cat_arg brands =
     (let results = products;
          results =
            (case cat_arg of
               None \<Rightarrow> results
             | Some c \<Rightarrow>
                 if c = [] then results
                 else (case ProductCategory_of (lower c) of
                         Some cat \<Rightarrow> filter (\<lambda>p. category p = cat) results
                       | None \<Rightarrow> results))
      in case brands of
           None \<Rightarrow> results
         | Some bs \<Rightarrow>
             if bs = [] then results
             else (let brands_lower = map lower bs
                   in filter (\<lambda>p. lower (brand p) \<in> set brands_lower) results))"

fun search_loop :: "string \<Rightarrow> Product list \<Rightarrow> Product list \<Rightarrow> Product list" where
  "search_loop query_lower [] results = results"
| "search_loop query_lower (p # rest) results =
     (if str_in query_lower (lower (name p)) then search_loop query_lower rest (results @ [p])
      else if str_in query_lower (lower (json_dumps (specs p)))
        then search_loop query_lower rest (results @ [p])
      else if str_in query_lower (lower (join '' '' (features p)))
        then search_loop query_lower rest (results @ [p])
      else search_loop query_lower rest results)"

definition search_products :: "Product list \<Rightarrow> string \<Rightarrow> Product list" where
  "search_products products query = search_loop (lower query) products []"

section \<open>The external service (\<^verbatim>\<open>ai_service.py\<close>)\<close>

datatype error = KeyError string | TypeError | ValueError | ValidationError

text \<open>
  The dictionary that \<^verbatim>\<open>get_recommendations\<close> builds for each shortlisted product has the
  seven keys \<^verbatim>\<open>id\<close>, \<^verbatim>\<open>name\<close>, \<^verbatim>\<open>category\<close>, \<^verbatim>\<open>specs\<close>, \<^verbatim>\<open>features\<close>, \<^verbatim>\<open>sizes\<close> and \<^verbatim>\<open>url\<close>,
  and no other. \<open>items\<close> is the dictionary itself, and \<open>getitem\<close> the subscript
  \<^verbatim>\<open>p[key]\<close>, which raises \<^verbatim>\<open>KeyError\<close> for a key that the dictionary does not have.
\<close>

record candidate =
  cand_id :: string
  cand_name :: string
  cand_category :: string
  cand_specs :: json
  cand_features :: "string list"
  cand_sizes :: "string list"
  cand_url :: "string option"

definition items :: "candidate \<Rightarrow> (string \<times> json) list" where
  "items p =
     [(''id'', JStr (cand_id p)),
      (''name'', JStr (cand_name p)),
      (''category'', JStr (cand_category p)),
      (''specs'', cand_specs p),
      (''features'', JList (map JStr (cand_features p))),
      (''sizes'', JList (map JStr (cand_sizes p))),
      (''url'', (case cand_url p of None \<Rightarrow> JNull | Some u \<Rightarrow> JStr u))]"

definition getitem :: "candidate \<Rightarrow> string \<Rightarrow> error + json" where
  "getitem p key = (case map_of (items p) key of Some v \<Rightarrow> Inr v | None \<Rightarrow> Inl (KeyError key))"

text \<open>
  What an f-string writes for a value: \<^verbatim>\<open>str(v)\<close> for the field \<^verbatim>\<open>{v}\<close>, and the decimal
  digits in groups of three for \<^verbatim>\<open>{v:,}\<close>, which only a number accepts. \<^verbatim>\<open>repr\<close> of a
  string takes double quotes when the string has a single quote and no double quote.
\<close>

definition repr_char :: "char \<Rightarrow> char \<Rightarrow> string" where
  "repr_char quote c =
     (let n = (of_char c :: nat)
      in if c = quote \<or> c = CHR 0x5C then [CHR 0x5C, c]
         else if c = CHR 0x09 then [CHR 0x5C, CHR ''t'']
         else if c = CHR 0x0A then [CHR 0x5C, CHR ''n'']
         else if c = CHR 0x0D then [CHR 0x5C, CHR ''r'']
         else if n < 32 \<or> (127 \<le> n \<and> n \<le> 160) \<or> n = 173
           then [CHR 0x5C, CHR ''x'', hex_digit (n div 16), hex_digit (n mod 16)]
         else [c])"

definition repr_str :: "string \<Rightarrow> string" where
  "repr_str s =
     (let quote = (if CHR 0x27 \<in> set s \<and> CHR 0x22 \<notin> set s then CHR 0x22 else CHR 0x27)
      in [quote] @ concat (map (repr_char quote) s) @ [quote])"

fun py_repr :: "json \<Rightarrow> string" where
  "py_repr JNull = ''None''"
| "py_repr (JBool b) = (if b then ''True'' else ''False'')"
| "py_repr (JInt i) = dec_int i"
| "py_repr (JStr s) = repr_str s"
| "py_repr (JList xs) = ''['' @ join '', '' (map py_repr xs) @ '']''"
| "py_repr (JObj kvs) =
     ''{'' @ join '', '' (map (\<lambda>(k, v). repr_str k @ '': '' @ py_repr v) kvs) @ ''}''"

definition py_str :: "json \<Rightarrow> string" where
  "py_str v = (case v of JStr s \<Rightarrow> s | _ \<Rightarrow> py_repr v)"

fun group_thousands :: "string \<Rightarrow> string" where
  "group_thousands (a # b # c # d # rest) = a # b # c # CHR '','' # group_thousands (d # rest)"
| "group_thousands ds = ds"

definition format_comma :: "json \<Rightarrow> error + string" where
  "format_comma v =
     (case v of
        JInt i \<Rightarrow>
          Inr ((if i < 0 then ''-'' else []) @ rev (group_thousands (rev (dec_nat (nat \<bar>i\<bar>)))))
      | JBool b \<Rightarrow> Inr (if b then ''1'' else ''0'')
      | JStr s \<Rightarrow> Inl ValueError
      | _ \<Rightarrow> Inl TypeError)"

text \<open>
  The entries and the result of \<^verbatim>\<open>generate_recommendations\<close>. A decoded reply of the
  service is taken to have the shape that the prompt asks for: a dictionary with an
  optional message and an optional list of entries, each with an optional product id, an
  optional integer score and an optional reasoning.
\<close>

record rec_entry =
  product_id :: "string option"
  rec_score :: "int option"
  rec_reasoning :: "string option"

record ai_result =
  ai_message :: "string option"
  ai_recommendations :: "rec_entry list option"

text \<open>
  What the \<^verbatim>\<open>try\<close> block of a call to the service comes to: the decoded value, a
  \<^verbatim>\<open>json.JSONDecodeError\<close> (the reply is not JSON), or any other exception (the service
  cannot be reached, the reply has no content, the decoded fields do not validate).
  The service is a pair of functions from the request to that outcome, and the calls made
  are kept in a log.
\<close>

datatype 'a attempt = Returned 'a | NotJson | Failed

record service =
  parse_reply :: "string \<Rightarrow> ParsedQuery attempt"
  explain_reply :: "string \<Rightarrow> ParsedQuery \<Rightarrow> candidate list \<Rightarrow> ai_result attempt"

datatype call = ParseCall string | ExplainCall string ParsedQuery "candidate list"

definition parse_query :: "service \<Rightarrow> string \<Rightarrow> call list \<Rightarrow> ParsedQuery \<times> call list" where
  "parse_query svc query calls =
     (case parse_reply svc query of
        Returned parsed \<Rightarrow> parsed
      | NotJson \<Rightarrow> empty_query
      | Failed \<Rightarrow> empty_query,
      calls @ [ParseCall query])"

definition no_matches_message :: string where
  "no_matches_message =
     ''I couldn'' @ [CHR 0x27] @ ''t find any products matching your requirements. '' @
     ''Could you try adjusting your budget or requirements?''"

definition not_json_entry :: "candidate \<Rightarrow> error + rec_entry" where
  "not_json_entry p =
     (case getitem p ''id'' of
        Inl e \<Rightarrow> Inl e
      | Inr pid \<Rightarrow>
          (case getitem p ''name'' of
             Inl e \<Rightarrow> Inl e
           | Inr nm \<Rightarrow>
               Inr \<lparr>product_id = Some (py_str pid), rec_score = Some 70,
                    rec_reasoning = Some (py_str nm @ '' - a solid choice in this category.'')\<rparr>))"

text \<open>The literal before the price has the three code points U+00E2, U+201A and U+00B9 in
  the source; the second is beyond the range of this text model and is written
  \<open>CHR 0x1A\<close>.\<close>

definition currency_mark :: string where
  "currency_mark = [CHR 0xE2, CHR 0x1A, CHR 0xB9]"

definition failed_entry :: "candidate \<Rightarrow> error + rec_entry" where
  "failed_entry p =
     (case getitem p ''id'' of
        Inl e \<Rightarrow> Inl e
      | Inr pid \<Rightarrow>
          (case getitem p ''name'' of
             Inl e \<Rightarrow> Inl e
           | Inr nm \<Rightarrow>
               (case getitem p ''brand'' of
                  Inl e \<Rightarrow> Inl e
                | Inr br \<Rightarrow>
                    (case getitem p ''price'' of
                       Inl e \<Rightarrow> Inl e
                     | Inr price \<Rightarrow>
                         (case format_comma price of
                            Inl e \<Rightarrow> Inl e
                          | Inr price_text \<Rightarrow>
                              Inr \<lparr>product_id = Some (py_str pid), rec_score = Some 70,
                                   rec_reasoning =
                                     Some (py_str nm @ '' by '' @ py_str br @ '' at ''
                                           @ currency_mark @ price_text)\<rparr>)))))"

text \<open>A list comprehension whose element can raise: the first exception ends it.\<close>

fun collect :: "('a \<Rightarrow> error + 'b) \<Rightarrow> 'a list \<Rightarrow> error + 'b list" where
  "collect f [] = Inr []"
| "collect f (x # xs) =
     (case f x of
        Inl e \<Rightarrow> Inl e
      | Inr y \<Rightarrow> (case collect f xs of Inl e \<Rightarrow> Inl e | Inr ys \<Rightarrow> Inr (y # ys)))"

text \<open>
  \<^verbatim>\<open>generate_recommendations\<close>. An exception raised inside an \<^verbatim>\<open>except\<close> clause is not
  caught by the clauses of the same \<^verbatim>\<open>try\<close>: it leaves the function.
\<close>

definition generate_recommendations ::
  "service \<Rightarrow> string \<Rightarrow> ParsedQuery \<Rightarrow> candidate list \<Rightarrow> call list
     \<Rightarrow> (error + ai_result) \<times> call list" where
  "generate_recommendations svc query parsed_query filtered_products calls =
     (if filtered_products = [] then
        (Inr \<lparr>ai_message = Some no_matches_message, ai_recommendations = Some []\<rparr>, calls)
      else
        (let candidates = take 10 filtered_products;
             calls1 = calls @ [ExplainCall query parsed_query candidates]
         in case explain_reply svc query parsed_query candidates of
              Returned result \<Rightarrow> (Inr result, calls1)
            | NotJson \<Rightarrow>
                (case collect not_json_entry (take 5 filtered_products) of
                   Inl e \<Rightarrow> (Inl e, calls1)
                 | Inr entries \<Rightarrow>
                     (Inr \<lparr>ai_message =
                             Some ''Here are some products that match your requirements:'',
                           ai_recommendations = Some entries\<rparr>, calls1))
            | Failed \<Rightarrow>
                (case collect failed_entry (take 5 filtered_products) of
                   Inl e \<Rightarrow> (Inl e, calls1)
                 | Inr entries \<Rightarrow>
                     (Inr \<lparr>ai_message =
                             Some ''Here are some products that might interest you:'',
                           ai_recommendations = Some entries\<rparr>, calls1))))"

section \<open>The orchestrator (\<^verbatim>\<open>recommendation_engine.py\<close>)\<close>

text \<open>\<^verbatim>\<open>_filter_products\<close> of the engine, on the products of the store.\<close>

definition engine_filter_products :: "Product list \<Rightarrow> ParsedQuery \<Rightarrow> Product list" where
  "engine_filter_products products parsed =
     (case category_q parsed of
        None \<Rightarrow> products
      | Some c \<Rightarrow>
          if c = [] then products
          else (case ProductCategory_of (lower c) of
                  Some cat \<Rightarrow> filter (\<lambda>p. category p = cat) products
                | None \<Rightarrow> products))"

text \<open>
  \<^verbatim>\<open>scored_products.sort(key=lambda x: x["score"], reverse=True)\<close>. The sort of a Python
  list is stable, with \<^verbatim>\<open>reverse=True\<close> too: elements with equal keys keep their order.
  Here it is the insertion sort of the library on the negated score.
\<close>

definition sort_by_score :: "scored list \<Rightarrow> scored list" where
  "sort_by_score xs = sort_key (\<lambda>x. - score x) xs"

text \<open>The first three steps of \<^verbatim>\<open>get_recommendations\<close> after the parse: filter, score,
  sort.\<close>

definition ranked :: "Product list \<Rightarrow> ParsedQuery \<Rightarrow> string \<Rightarrow> scored list" where
  "ranked products parsed query =
     sort_by_score (score_products (engine_filter_products products parsed) parsed query)"

definition candidate_of :: "scored \<Rightarrow> candidate" where
  "candidate_of p =
     \<lparr>cand_id = ident (product p),
      cand_name = name (product p),
      cand_category = category_value (category (product p)),
      cand_specs = specs (product p),
      cand_features = features (product p),
      cand_sizes = sizes (product p),
      cand_url = url (product p)\<rparr>"

record ProductRecommendation =
  pr_product :: Product
  pr_score :: int
  pr_reasoning :: string

record RecommendationResponse =
  query :: string
  parsed_query :: ParsedQuery
  recommendations :: "ProductRecommendation list"
  message :: string

text \<open>
  The loop that builds the final recommendations. \<^verbatim>\<open>rec["product_id"]\<close> raises
  \<^verbatim>\<open>KeyError\<close> when the entry has no product id; an entry whose product is not in the
  store is skipped; the constructor of \<^verbatim>\<open>ProductRecommendation\<close> rejects a score
  outside 0..100 (\<^verbatim>\<open>Field(..., ge=0, le=100)\<close> in \<^verbatim>\<open>models.py\<close>).
\<close>

fun build_recommendations ::
  "Product list \<Rightarrow> rec_entry list \<Rightarrow> ProductRecommendation list
     \<Rightarrow> error + ProductRecommendation list" where
  "build_recommendations products [] acc = Inr acc"
| "build_recommendations products (r # rest) acc =
     (case product_id r of
        None \<Rightarrow> Inl (KeyError ''product_id'')
      | Some pid \<Rightarrow>
          (case get_product_by_id products pid of
             None \<Rightarrow> build_recommendations products rest acc
           | Some p \<Rightarrow>
               (let sc = (case rec_score r of None \<Rightarrow> 70 | Some v \<Rightarrow> v);
                    reasoning = (case rec_reasoning r of None \<Rightarrow> [] | Some t \<Rightarrow> t)
                in if 0 \<le> sc \<and> sc \<le> 100
                   then build_recommendations products rest
                          (acc @ [\<lparr>pr_product = p, pr_score = sc, pr_reasoning = reasoning\<rparr>])
                   else Inl ValidationError)))"

definition get_recommendations ::
  "Product list \<Rightarrow> service \<Rightarrow> string \<Rightarrow> call list
     \<Rightarrow> (error + RecommendationResponse) \<times> call list" where
  "get_recommendations products svc q calls =
     (let (parsed, calls1) = parse_query svc q calls;
          scored_products = ranked products parsed q;
          products_for_ai = map candidate_of (take 10 scored_products);
          (ai_result, calls2) = generate_recommendations svc q parsed products_for_ai calls1
      in case ai_result of
           Inl e \<Rightarrow> (Inl e, calls2)
         | Inr result \<Rightarrow>
             (case build_recommendations products
                     (take 3 (case ai_recommendations result of None \<Rightarrow> [] | Some rs \<Rightarrow> rs)) [] of
                Inl e \<Rightarrow> (Inl e, calls2)
              | Inr recs \<Rightarrow>
                  (Inr \<lparr>query = q, parsed_query = parsed, recommendations = recs,
                        message = (case ai_message result of
                                     None \<Rightarrow> ''Here are your recommendations:''
                                   | Some m \<Rightarrow> m)\<rparr>,
                   calls2)))"

section \<open>The scoring rules as the specification states them\<close>

text \<open>
  Rules 1 to 7 of the scoring algorithm, each as a bonus computed from the product, the
  intent and the raw query, without a running score.
\<close>

definition intent_keywords :: "ParsedQuery \<Rightarrow> string list" where
  "intent_keywords parsed = keywords_q parsed @ must_have_features parsed"

definition category_bonus :: "Product \<Rightarrow> ParsedQuery \<Rightarrow> int" where
  "category_bonus p parsed =
     (case category_q parsed of
        None \<Rightarrow> 0
      | Some c \<Rightarrow> if ProductCategory_of (lower c) = Some (category p) then 15 else 0)"

definition keyword_name_bonus :: "Product \<Rightarrow> ParsedQuery \<Rightarrow> int" where
  "keyword_name_bonus p parsed =
     10 * int (length (filter (\<lambda>k. str_in (lower k) (lower (name p))) (intent_keywords parsed)))"

definition keyword_text_bonus :: "Product \<Rightarrow> ParsedQuery \<Rightarrow> int" where
  "keyword_text_bonus p parsed =
     5 * int (length (filter (\<lambda>k. str_in (lower k) (features_text p)
                                  \<or> str_in (lower k) (specs_text p))
                        (intent_keywords parsed)))"

definition token_bonus :: "Product \<Rightarrow> string \<Rightarrow> int" where
  "token_bonus p t =
     (if str_in t (lower (name p)) then 3 else 0) +
     (if str_in t (features_text p) \<or> str_in t (specs_text p) then 2 else 0)"

definition query_token_bonus :: "Product \<Rightarrow> string \<Rightarrow> int" where
  "query_token_bonus p q =
     sum_list (map (token_bonus p) (filter (\<lambda>t. length t > 3) (split (lower q))))"

definition size_bonus_of :: "Product \<Rightarrow> string \<Rightarrow> int" where
  "size_bonus_of p sp =
     (if list_ex (\<lambda>s. str_in (lower sp) (lower s)) (sizes p) then 15 else 0) +
     (if str_in (lower sp) (specs_text p) then 10 else 0)"

definition capacity_bonus_of :: "Product \<Rightarrow> string \<Rightarrow> int" where
  "capacity_bonus_of p cp =
     (if str_in (lower cp) (lower (name p)) \<or> str_in (lower cp) (specs_text p) then 15 else 0)"

text \<open>The score as the claim states it: the size and capacity bonuses for any size
  preference and capacity that the intent has.\<close>

definition stated_score :: "Product \<Rightarrow> ParsedQuery \<Rightarrow> string \<Rightarrow> int" where
  "stated_score p parsed q =
     min 100
       (50 + category_bonus p parsed + keyword_name_bonus p parsed + keyword_text_bonus p parsed
        + query_token_bonus p q
        + (case size_preference parsed of None \<Rightarrow> 0 | Some sp \<Rightarrow> size_bonus_of p sp)
        + (case capacity parsed of None \<Rightarrow> 0 | Some cp \<Rightarrow> capacity_bonus_of p cp)
        + use_case_score p parsed)"

text \<open>The same with the size and capacity bonuses only for a size preference and a
  capacity that are not the empty string.\<close>

definition size_bonus :: "Product \<Rightarrow> ParsedQuery \<Rightarrow> int" where
  "size_bonus p parsed =
     (case size_preference parsed of
        None \<Rightarrow> 0
      | Some sp \<Rightarrow> if sp = [] then 0 else size_bonus_of p sp)"

definition capacity_bonus :: "Product \<Rightarrow> ParsedQuery \<Rightarrow> int" where
  "capacity_bonus p parsed =
     (case capacity parsed of
        None \<Rightarrow> 0
      | Some cp \<Rightarrow> if cp = [] then 0 else capacity_bonus_of p cp)"

definition rule_score :: "Product \<Rightarrow> ParsedQuery \<Rightarrow> string \<Rightarrow> int" where
  "rule_score p parsed q =
     min 100
       (50 + category_bonus p parsed + keyword_name_bonus p parsed + keyword_text_bonus p parsed
        + query_token_bonus p q + size_bonus p parsed + capacity_bonus p parsed
        + use_case_score p parsed)"

text \<open>The capacity bands of the use-case table as the specification states them, with
  strict thresholds, and as inclusive thresholds.\<close>

definition strict_band :: "int \<Rightarrow> int \<Rightarrow> int \<Rightarrow> int" where
  "strict_band near far d = (if \<bar>d\<bar> < near then 15 else if \<bar>d\<bar> < far then 10 else 0)"

definition inclusive_band :: "int \<Rightarrow> int \<Rightarrow> int \<Rightarrow> int" where
  "inclusive_band near far d = (if \<bar>d\<bar> \<le> near then 15 else if \<bar>d\<bar> \<le> far then 10 else 0)"

text \<open>The only use-case bonus that needs no field of the intent: an air conditioner
  with an inverter.\<close>

definition inverter_bonus :: "Product \<Rightarrow> int" where
  "inverter_bonus p =
     (if category p = AC \<and> (str_in ''inverter'' (features_text p) \<or> str_in ''inverter'' (specs_text p))
      then 5 else 0)"

section \<open>Example inputs\<close>

definition example_tv :: Product where
  "example_tv =
     \<lparr>ident = ''hisense-55-uled-tv-000'', name = ''Hisense 55 ULED TV'', category = TV,
      brand = ''Hisense'', specs = JObj [(''refresh_rate'', JStr ''120Hz'')],
      features = [''Game Mode''], url = None, sizes = [''55 inch'']\<rparr>"

definition example_ac :: Product where
  "example_ac =
     \<lparr>ident = ''hisense-split-ac-001'', name = ''Hisense Split AC'', category = AC,
      brand = ''Hisense'', specs = JObj [(''compressor'', JStr ''Inverter'')],
      features = [], url = None, sizes = []\<rparr>"

definition example_echo :: Product where
  "example_echo =
     \<lparr>ident = ''abcd-002'', name = ''abcd'', category = DRYER, brand = ''Hisense'',
      specs = JObj [], features = [''abcd''], url = None, sizes = []\<rparr>"

definition example_washer8 :: Product where
  "example_washer8 =
     \<lparr>ident = ''hisense-washer-8kg-003'', name = ''Hisense Washer 8kg'',
      category = WASHING_MACHINE, brand = ''Hisense'', specs = JObj [], features = [],
      url = None, sizes = [''8kg'']\<rparr>"

definition example_washer10 :: Product where
  "example_washer10 =
     \<lparr>ident = ''hisense-washer-10-kg-004'', name = ''Hisense Washer 10 KG'',
      category = WASHING_MACHINE, brand = ''Hisense'', specs = JObj [], features = [],
      url = None, sizes = [''10kg'']\<rparr>"

definition example_fridge400 :: Product where
  "example_fridge400 =
     \<lparr>ident = ''hisense-400-l-refrigerator-005'', name = ''Hisense 400 L Refrigerator'',
      category = REFRIGERATOR, brand = ''Hisense'', specs = JObj [], features = [],
      url = None, sizes = [''400L'']\<rparr>"

definition example_fridge50 :: Product where
  "example_fridge50 =
     \<lparr>ident = ''hisense-mini-fridge-50l-006'', name = ''Hisense Mini Fridge 50L'',
      category = REFRIGERATOR, brand = ''Hisense'', specs = JObj [], features = [],
      url = None, sizes = [''50L'']\<rparr>"

definition blank_preferences :: ParsedQuery where
  "blank_preferences = empty_query\<lparr>size_preference := Some [], capacity := Some []\<rparr>"

definition family_of :: "int \<Rightarrow> ParsedQuery" where
  "family_of n = empty_query\<lparr>family_size := Some n\<rparr>"

definition eleven_tokens :: string where
  "eleven_tokens = ''abcd abcd abcd abcd abcd abcd abcd abcd abcd abcd abcd''"

text \<open>A service that cannot be reached, one whose replies are not JSON, and one that
  parses every query to the category of dryers and whose explanations are not JSON.\<close>

definition service_down :: service where
  "service_down = \<lparr>parse_reply = (\<lambda>q. Failed), explain_reply = (\<lambda>q parsed cands. Failed)\<rparr>"

definition service_garbled :: service where
  "service_garbled = \<lparr>parse_reply = (\<lambda>q. NotJson), explain_reply = (\<lambda>q parsed cands. NotJson)\<rparr>"

definition service_dryer :: service where
  "service_dryer =
     \<lparr>parse_reply = (\<lambda>q. Returned (empty_query\<lparr>category_q := Some ''Dryer''\<rparr>)),
      explain_reply = (\<lambda>q parsed cands. NotJson)\<rparr>"

section \<open>Facts about the text functions\<close>

lemma str_in_empty: "str_in [] t"
  by (cases t) simp_all

lemma lower_empty: "lower [] = []"
  by (simp add: lower_def)

lemma ProductCategory_of_empty: "ProductCategory_of [] = None"
  by (simp add: ProductCategory_of_def all_categories_def)

lemma ProductCategory_of_unknown:
  "s \<notin> set (map category_value all_categories) \<Longrightarrow> ProductCategory_of s = None"
  by (auto simp: ProductCategory_of_def find_None_iff)

section \<open>The loops of the scoring as sums\<close>

lemma name_keyword_loop_sum:
  "name_keyword_loop p ks s =
     s + 10 * int (length (filter (\<lambda>k. str_in (lower k) (lower (name p))) ks))"
  by (induction ks arbitrary: s) simp_all

lemma feature_keyword_loop_sum:
  "feature_keyword_loop p ks s =
     s + 5 * int (length (filter (\<lambda>k. str_in (lower k) (features_text p)
                                      \<or> str_in (lower k) (specs_text p)) ks))"
  by (induction ks arbitrary: s) simp_all

lemma query_term_loop_sum:
  "query_term_loop p ts s = s + sum_list (map (token_bonus p) (filter (\<lambda>t. length t > 3) ts))"
  by (induction ts arbitrary: s) (simp_all add: Let_def token_bonus_def)

lemma category_step_sum: "category_step p parsed s = s + category_bonus p parsed"
  by (auto simp: category_step_def category_bonus_def lower_empty ProductCategory_of_empty
      split: option.splits)

lemma size_preference_step_sum: "size_preference_step p parsed s = s + size_bonus p parsed"
  by (simp add: size_preference_step_def size_bonus_def size_bonus_of_def Let_def
      split: option.splits)

lemma capacity_step_sum: "capacity_step p parsed s = s + capacity_bonus p parsed"
  by (simp add: capacity_step_def capacity_bonus_def capacity_bonus_of_def Let_def
      split: option.splits)

lemma score_product_rule: "score_product p parsed q = rule_score p parsed q"
  unfolding score_product_def Let_def category_step_sum name_keyword_loop_sum
    feature_keyword_loop_sum query_term_loop_sum size_preference_step_sum capacity_step_sum
    rule_score_def keyword_name_bonus_def keyword_text_bonus_def query_token_bonus_def
    intent_keywords_def
  by simp

section \<open>No bonus is negative\<close>

lemma category_bonus_nonneg: "0 \<le> category_bonus p parsed"
  by (simp add: category_bonus_def split: option.splits)

lemma keyword_name_bonus_nonneg: "0 \<le> keyword_name_bonus p parsed"
  by (simp add: keyword_name_bonus_def)

lemma keyword_text_bonus_nonneg: "0 \<le> keyword_text_bonus p parsed"
  by (simp add: keyword_text_bonus_def)

lemma token_bonus_nonneg: "0 \<le> token_bonus p t"
  by (simp add: token_bonus_def)

lemma query_token_bonus_nonneg: "0 \<le> query_token_bonus p q"
  unfolding query_token_bonus_def
  by (rule sum_list_nonneg) (auto simp: token_bonus_nonneg)

lemma size_bonus_nonneg: "0 \<le> size_bonus p parsed"
  by (simp add: size_bonus_def size_bonus_of_def split: option.splits)

lemma capacity_bonus_nonneg: "0 \<le> capacity_bonus p parsed"
  by (simp add: capacity_bonus_def capacity_bonus_of_def split: option.splits)

lemma tv_bonus_nonneg: "0 \<le> tv_bonus uc ft st"
  by (simp add: tv_bonus_def)

lemma refrigerator_bonus_nonneg: "0 \<le> refrigerator_bonus p parsed"
  by (simp add: refrigerator_bonus_def Let_def split: option.splits)

lemma washing_machine_family_bonus_nonneg: "0 \<le> washing_machine_family_bonus p parsed"
  by (simp add: washing_machine_family_bonus_def Let_def split: option.splits)

lemma washing_machine_smart_bonus_nonneg: "0 \<le> washing_machine_smart_bonus uc ft"
  by (simp add: washing_machine_smart_bonus_def)

lemma ac_bonus_nonneg: "0 \<le> ac_bonus parsed ft st"
  by (simp add: ac_bonus_def Let_def)

lemma soundbar_bonus_nonneg: "0 \<le> soundbar_bonus p uc ft st"
  by (simp add: soundbar_bonus_def)

lemma projector_bonus_nonneg: "0 \<le> projector_bonus p uc st"
  by (simp add: projector_bonus_def)

lemma use_case_score_nonneg: "0 \<le> use_case_score p parsed"
proof (cases "category p")
  case WASHING_MACHINE
  then show ?thesis
    using washing_machine_family_bonus_nonneg [of p parsed]
      washing_machine_smart_bonus_nonneg
        [of "lower (case use_case parsed of None \<Rightarrow> [] | Some u \<Rightarrow> u)" "features_text p"]
    by (simp add: use_case_score_def)
qed (simp_all add: use_case_score_def tv_bonus_nonneg refrigerator_bonus_nonneg ac_bonus_nonneg
      soundbar_bonus_nonneg projector_bonus_nonneg)

lemma rule_score_bounds: "50 \<le> rule_score p parsed q \<and> rule_score p parsed q \<le> 100"
  using category_bonus_nonneg [of p parsed] keyword_name_bonus_nonneg [of p parsed]
    keyword_text_bonus_nonneg [of p parsed] query_token_bonus_nonneg [of p q]
    size_bonus_nonneg [of p parsed] capacity_bonus_nonneg [of p parsed]
    use_case_score_nonneg [of p parsed]
  by (simp add: rule_score_def)

section \<open>The intent with no field\<close>

lemma empty_query_fields:
  "category_q empty_query = None" "use_case empty_query = None" "room_size empty_query = None"
  "family_size empty_query = None" "capacity empty_query = None"
  "size_preference empty_query = None" "must_have_features empty_query = []"
  "keywords_q empty_query = []"
  by (simp_all add: empty_query_def)

lemma not_str_in_empty:
  "\<not> str_in ''gaming'' []" "\<not> str_in ''game'' []" "\<not> str_in ''movie'' []"
  "\<not> str_in ''cinema'' []" "\<not> str_in ''sport'' []" "\<not> str_in ''smart'' []"
  "\<not> str_in ''connected'' []" "\<not> str_in ''bass'' []" "\<not> str_in ''music'' []"
  "\<not> str_in ''large'' []" "\<not> str_in ''living'' []" "\<not> str_in ''small'' []"
  "\<not> str_in ''bedroom'' []"
  by simp_all

lemma use_case_score_empty_query: "use_case_score p empty_query = inverter_bonus p"
  by (cases "category p")
    (simp_all add: use_case_score_def empty_query_fields lower_empty not_str_in_empty tv_bonus_def
      refrigerator_bonus_def washing_machine_family_bonus_def washing_machine_smart_bonus_def
      ac_bonus_def soundbar_bonus_def projector_bonus_def inverter_bonus_def)

section \<open>The sort\<close>

lemma sort_by_score_descending: "sorted_wrt (\<lambda>a b. score b \<le> score a) (sort_by_score xs)"
proof -
  have "sorted (map (\<lambda>x. - score x) (sort_by_score xs))"
    unfolding sort_by_score_def by (rule sorted_sort_key)
  then show ?thesis
    by (simp add: sorted_map)
qed

lemma sort_by_score_stable:
  "filter (\<lambda>c. score c = k) (sort_by_score xs) = filter (\<lambda>c. score c = k) xs"
proof -
  have "filter (\<lambda>c. - score c = - k) (sort_key (\<lambda>x. - score x) xs)
          = filter (\<lambda>c. - score c = - k) xs"
    by (rule sort_key_stable)
  then show ?thesis
    by (simp add: sort_by_score_def)
qed

lemma engine_filter_products_subseq: "subseq (engine_filter_products products parsed) products"
  by (simp add: engine_filter_products_def split: option.splits)

lemma score_products_filter:
  "map product (filter (\<lambda>c. score c = k) (score_products ps parsed q))
     = filter (\<lambda>p. score_product p parsed q = k) ps"
  by (induction ps) (simp_all add: score_products_def)

section \<open>The fallbacks of the explanation generator\<close>

lemma getitem_id: "getitem p ''id'' = Inr (JStr (cand_id p))"
  by (simp add: getitem_def items_def)

lemma getitem_name: "getitem p ''name'' = Inr (JStr (cand_name p))"
  by (simp add: getitem_def items_def)

lemma getitem_brand: "getitem p ''brand'' = Inl (KeyError ''brand'')"
  by (simp add: getitem_def items_def)

lemma not_json_entry_value:
  "not_json_entry p =
     Inr \<lparr>product_id = Some (cand_id p), rec_score = Some 70,
          rec_reasoning = Some (cand_name p @ '' - a solid choice in this category.'')\<rparr>"
  by (simp add: not_json_entry_def getitem_id getitem_name py_str_def)

lemma failed_entry_raises: "failed_entry p = Inl (KeyError ''brand'')"
  by (simp add: failed_entry_def getitem_id getitem_name getitem_brand)

lemma collect_total: "(\<And>x. f x = Inr (g x)) \<Longrightarrow> collect f xs = Inr (map g xs)"
  by (induction xs) simp_all

lemma collect_first_raises: "xs \<noteq> [] \<Longrightarrow> (\<And>x. f x = Inl e) \<Longrightarrow> collect f xs = Inl e"
  by (cases xs) simp_all

section \<open>The search\<close>

lemma search_loop_empty_query: "search_loop [] ps results = results @ ps"
  by (induction ps arbitrary: results) (simp_all add: str_in_empty)

section \<open>The score of a product\<close>

text \<open>
  Claim C1, as amended. For every list of products, every intent and every raw query,
  scoring returns the products in their order, each with the score
  \<open>min 100 (50 + bonuses)\<close>, where the bonuses are: 15 for a recognized category equal to
  the product's; 10 for each entry of keywords followed by must-have features that occurs
  in the name, and 5 for each that occurs in the features text or the specs text, case
  ignored and duplicates counted; 3 and 2 for each whitespace-delimited token of the
  lowered query longer than 3 characters found in the name and in the features or specs
  text; 15 and 10 for a size preference that is not the empty string, found in an entry of
  the sizes and in the specs text; 15 for a capacity that is not the empty string, found
  in the name or the specs text; and the use-case bonus. The loops of the source, which
  carry a running score, are compared here with the sums of \<open>rule_score\<close>.
\<close>

theorem C1_score_is_rule_score:
  "map score (score_products ps parsed q) = map (\<lambda>p. rule_score p parsed q) ps
   \<and> map product (score_products ps parsed q) = ps"
  by (simp add: score_products_def score_product_rule comp_def)

text \<open>
  Claim C1 as stated gives the size and capacity bonuses for any size preference and
  capacity of the intent. An intent whose size preference and capacity are the empty
  string gets none of them from the code, although the empty string occurs in every
  text: the television of the examples scores 50, and 90 by the rules as stated.
\<close>

theorem C1_counterexample:
  "score_product example_tv blank_preferences [] = 50
   \<and> stated_score example_tv blank_preferences [] = 90
   \<and> map score (score_products [example_tv] blank_preferences [])
       \<noteq> map (\<lambda>p. stated_score p blank_preferences []) [example_tv]"
proof -
  have a: "score_product example_tv blank_preferences [] = 50"
    by code_simp
  have b: "stated_score example_tv blank_preferences [] = 90"
    by code_simp
  show ?thesis
    by (simp add: a b score_products_def)
qed

text \<open>
  Claim C2. For every product, every intent and every raw query, the score lies between
  50 and 100, and so does every score in the list that scoring returns.
\<close>

theorem C2_score_in_range:
  "50 \<le> score_product p parsed q \<and> score_product p parsed q \<le> 100
   \<and> list_all (\<lambda>c. 50 \<le> score c \<and> score c \<le> 100) (score_products ps parsed q)"
  using rule_score_bounds
  by (simp add: score_product_rule score_products_def list_all_iff)

section \<open>The ranking\<close>

text \<open>
  Claim C3. The candidates that \<open>get_recommendations\<close> ranks are in descending order of
  score, and the sort is stable: for every score \<open>k\<close>, the candidates with score \<open>k\<close> stand
  in the ranking in the order in which scoring returned them, which is the order of their
  products in the filtered catalog, itself a subsequence of the catalog.
\<close>

theorem C3_ranking_sorted_and_stable:
  "sorted_wrt (\<lambda>a b. score b \<le> score a) (ranked catalog parsed q)
   \<and> filter (\<lambda>c. score c = k) (ranked catalog parsed q)
       = filter (\<lambda>c. score c = k)
           (score_products (engine_filter_products catalog parsed) parsed q)
   \<and> map product (filter (\<lambda>c. score c = k) (ranked catalog parsed q))
       = filter (\<lambda>p. score_product p parsed q = k) (engine_filter_products catalog parsed)
   \<and> subseq (engine_filter_products catalog parsed) catalog"
  by (simp add: ranked_def sort_by_score_descending sort_by_score_stable score_products_filter
      engine_filter_products_subseq)

section \<open>No product matches\<close>

text \<open>
  Claim C4. When filtering the catalog by the category of the parsed intent leaves no
  product, \<open>get_recommendations\<close> returns a response with the query, the parsed intent, an
  empty list of recommendations and the fixed message, and the only call to the external
  service is the one that parsed the query: the explanation is not asked for.
\<close>

theorem C4_no_matches:
  assumes "engine_filter_products catalog (fst (parse_query svc q calls)) = []"
  shows "get_recommendations catalog svc q calls =
           (Inr \<lparr>query = q, parsed_query = fst (parse_query svc q calls),
                 recommendations = [], message = no_matches_message\<rparr>,
            calls @ [ParseCall q])"
proof -
  obtain parsed where p: "parse_query svc q calls = (parsed, calls @ [ParseCall q])"
    by (simp add: parse_query_def)
  from assms p have "ranked catalog parsed q = []"
    by (simp add: ranked_def score_products_def sort_by_score_def)
  with p show ?thesis
    by (simp add: get_recommendations_def generate_recommendations_def)
qed

theorem C4_no_matches_witness:
  "engine_filter_products [example_tv, example_ac]
      (fst (parse_query service_dryer ''a dryer for a family'' [])) = []
   \<and> get_recommendations [example_tv, example_ac] service_dryer ''a dryer for a family'' [] =
       (Inr \<lparr>query = ''a dryer for a family'',
             parsed_query = empty_query\<lparr>category_q := Some ''Dryer''\<rparr>,
             recommendations = [], message = no_matches_message\<rparr>,
        [ParseCall ''a dryer for a family''])"
proof -
  have h: "engine_filter_products [example_tv, example_ac]
             (fst (parse_query service_dryer ''a dryer for a family'' [])) = []"
    by code_simp
  have "fst (parse_query service_dryer ''a dryer for a family'' [])
          = empty_query\<lparr>category_q := Some ''Dryer''\<rparr>"
    by (simp add: parse_query_def service_dryer_def)
  with h C4_no_matches [OF h] show ?thesis
    by simp
qed

section \<open>The intent with no field\<close>

text \<open>
  Claim C5, as amended. For every product and every raw query, scoring with the intent
  whose fields are all absent yields \<open>min 100 (50 + token bonuses + inverter bonus)\<close>: the
  base, the bonuses of the query tokens, and 5 for an air conditioner with "inverter" in
  its features text or specs text, clamped at 100.
\<close>

theorem C5_empty_intent_score:
  "score_product p empty_query q = min 100 (50 + query_token_bonus p q + inverter_bonus p)"
  by (simp add: score_product_rule rule_score_def category_bonus_def keyword_name_bonus_def
      keyword_text_bonus_def intent_keywords_def size_bonus_def capacity_bonus_def
      empty_query_fields use_case_score_empty_query)

text \<open>
  Claim C5 as stated says the score is exactly 50 plus the token bonuses. The air
  conditioner of the examples, with an empty query, scores 55, since its inverter bonus
  needs no field of the intent; and a product that matches each of eleven query tokens
  in its name and features scores 100, not 105.
\<close>

theorem C5_counterexample:
  "score_product example_ac empty_query [] \<noteq> 50 + query_token_bonus example_ac []
   \<and> score_product example_echo empty_query eleven_tokens
       \<noteq> 50 + query_token_bonus example_echo eleven_tokens"
proof -
  have "score_product example_ac empty_query [] = 55"
    by code_simp
  moreover have "query_token_bonus example_ac [] = 0"
    by code_simp
  moreover have "score_product example_echo empty_query eleven_tokens = 100"
    by code_simp
  moreover have "query_token_bonus example_echo eleven_tokens = 55"
    by code_simp
  ultimately show ?thesis
    by simp
qed

section \<open>The capacity bands\<close>

text \<open>
  Claim C6, as amended. For an intent whose family size is present and not zero: a
  washing machine whose name yields a kg capacity earns, besides its smart bonus, 15 when
  the capacity is within 2 of twice the family size, the distance 2 included, else 10 when
  it is within 4, the distance 4 included, else nothing; a refrigerator whose name yields
  a litre capacity earns 15 when the capacity is less than 100 from a hundred times the
  family size, else 10 when it is less than 200 from it, else nothing.
\<close>

theorem C6_capacity_bands:
  "family_size parsed = Some fs \<Longrightarrow> fs \<noteq> 0 \<Longrightarrow>
   (category p = WASHING_MACHINE \<and> search_capacity ''kg'' (name p) = Some ds \<longrightarrow>
      use_case_score p parsed =
        inclusive_band 2 4 (int_of_digits ds - fs * 2)
        + washing_machine_smart_bonus
            (lower (case use_case parsed of None \<Rightarrow> [] | Some u \<Rightarrow> u)) (features_text p))
   \<and> (category p = REFRIGERATOR \<and> search_capacity ''l'' (name p) = Some ds \<longrightarrow>
      use_case_score p parsed = strict_band 100 200 (int_of_digits ds - fs * 100))"
  by (simp add: use_case_score_def washing_machine_family_bonus_def refrigerator_bonus_def
      inclusive_band_def strict_band_def Let_def)

theorem C6_capacity_bands_witness:
  "family_size (family_of 3) = Some 3 \<and> (3::int) \<noteq> 0
   \<and> category example_washer8 = WASHING_MACHINE
   \<and> search_capacity ''kg'' (name example_washer8) = Some ''8''
   \<and> use_case_score example_washer8 (family_of 3) = 15
   \<and> category example_fridge400 = REFRIGERATOR
   \<and> search_capacity ''l'' (name example_fridge400) = Some ''400''
   \<and> use_case_score example_fridge400 (family_of 3) = 10"
proof -
  have f: "family_size (family_of 3) = Some 3"
    by (simp add: family_of_def empty_query_def)
  have nz: "(3::int) \<noteq> 0"
    by simp
  have w: "category example_washer8 = WASHING_MACHINE"
    by (simp add: example_washer8_def)
  have wc: "search_capacity ''kg'' (name example_washer8) = Some ''8''"
    by code_simp
  have r: "category example_fridge400 = REFRIGERATOR"
    by (simp add: example_fridge400_def)
  have rc: "search_capacity ''l'' (name example_fridge400) = Some ''400''"
    by code_simp
  have ws: "washing_machine_smart_bonus
              (lower (case use_case (family_of 3) of None \<Rightarrow> [] | Some u \<Rightarrow> u))
              (features_text example_washer8) = 0"
    by code_simp
  have d8: "inclusive_band 2 4 (int_of_digits ''8'' - 3 * 2) = 15"
    by code_simp
  have d400: "strict_band 100 200 (int_of_digits ''400'' - 3 * 100) = 10"
    by code_simp
  from C6_capacity_bands [OF f nz, of example_washer8 "''8''"] w wc ws d8
  have a: "use_case_score example_washer8 (family_of 3) = 15"
    by simp
  from C6_capacity_bands [OF f nz, of example_fridge400 "''400''"] r rc d400
  have b: "use_case_score example_fridge400 (family_of 3) = 10"
    by simp
  from f nz w wc r rc a b show ?thesis
    by simp
qed

text \<open>
  Claim C6 as stated has strict thresholds for the washing machine, and counts every
  family size that is present. At the distance 2 the code gives 15 and not 10, at the
  distance 4 it gives 10 and not nothing, and for the family size 0 it gives nothing
  where the refrigerator band gives 15.
\<close>

theorem C6_counterexample:
  "use_case_score example_washer8 (family_of 3) \<noteq> strict_band 2 4 (8 - 3 * 2)
   \<and> use_case_score example_washer10 (family_of 3) \<noteq> strict_band 2 4 (10 - 3 * 2)
   \<and> use_case_score example_fridge50 (family_of 0) \<noteq> strict_band 100 200 (50 - 0 * 100)"
proof -
  have "use_case_score example_washer8 (family_of 3) = 15"
    by code_simp
  moreover have "use_case_score example_washer10 (family_of 3) = 10"
    by code_simp
  moreover have "use_case_score example_fridge50 (family_of 0) = 0"
    by code_simp
  ultimately show ?thesis
    by (simp add: strict_band_def)
qed

section \<open>The explanation generator when the service fails\<close>

text \<open>
  Claim C7 says that after a failure of the service other than a reply that is not JSON,
  the explanation generator returns the first 5 candidates with score 70 and raises
  nothing. The code does not: the reasoning of its entries reads the keys \<^verbatim>\<open>brand\<close> and
  \<^verbatim>\<open>price\<close>, which no candidate has, so for every candidate list that is not empty the
  generator raises \<^verbatim>\<open>KeyError\<close> after it has called the service.
\<close>

theorem C7_failure_raises_KeyError:
  assumes "cands \<noteq> []" and "explain_reply svc q parsed (take 10 cands) = Failed"
  shows "generate_recommendations svc q parsed cands calls =
           (Inl (KeyError ''brand''), calls @ [ExplainCall q parsed (take 10 cands)])"
proof -
  from assms(1) have "take 5 cands \<noteq> []"
    by (cases cands) simp_all
  then have "collect failed_entry (take 5 cands) = Inl (KeyError ''brand'')"
    by (rule collect_first_raises) (rule failed_entry_raises)
  with assms show ?thesis
    by (simp add: generate_recommendations_def)
qed

theorem C7_failure_raises_KeyError_witness:
  "[candidate_of \<lparr>product = example_tv, score = 50\<rparr>] \<noteq> []
   \<and> explain_reply service_down ''best tv'' empty_query
        (take 10 [candidate_of \<lparr>product = example_tv, score = 50\<rparr>]) = Failed
   \<and> generate_recommendations service_down ''best tv'' empty_query
        [candidate_of \<lparr>product = example_tv, score = 50\<rparr>] [ParseCall ''best tv''] =
       (Inl (KeyError ''brand''),
        [ParseCall ''best tv'',
         ExplainCall ''best tv'' empty_query [candidate_of \<lparr>product = example_tv, score = 50\<rparr>]])"
proof -
  have a: "[candidate_of \<lparr>product = example_tv, score = 50\<rparr>] \<noteq> []"
    by simp
  have b: "explain_reply service_down ''best tv'' empty_query
             (take 10 [candidate_of \<lparr>product = example_tv, score = 50\<rparr>]) = Failed"
    by (simp add: service_down_def)
  from a b C7_failure_raises_KeyError [OF a b, of "[ParseCall ''best tv'']"] show ?thesis
    by simp
qed

text \<open>The same through the whole pipeline: with the service down, the query parses to the
  empty intent, the one product of the catalog is ranked, and the response is the error.\<close>

lemma get_recommendations_service_down:
  "fst (get_recommendations [example_tv] service_down ''best tv'' []) = Inl (KeyError ''brand'')"
  by code_simp

section \<open>The explanation generator when the reply is not JSON\<close>

text \<open>
  Claim C8. For every candidate list that is not empty, when the reply of the service is
  not JSON, the explanation generator returns the fixed message and one entry for each
  of the first 5 candidates, in their order: the candidate's id, the score 70 and a
  reasoning made of the candidate's name. There are \<open>min 5 (length cands)\<close> entries.
\<close>

theorem C8_not_json_fallback:
  assumes "cands \<noteq> []" and "explain_reply svc q parsed (take 10 cands) = NotJson"
  shows "generate_recommendations svc q parsed cands calls =
           (Inr \<lparr>ai_message = Some ''Here are some products that match your requirements:'',
                 ai_recommendations =
                   Some (map (\<lambda>p. \<lparr>product_id = Some (cand_id p), rec_score = Some 70,
                                    rec_reasoning =
                                      Some (cand_name p @ '' - a solid choice in this category.'')\<rparr>)
                           (take 5 cands))\<rparr>,
            calls @ [ExplainCall q parsed (take 10 cands)])
         \<and> length (take 5 cands) = min 5 (length cands)"
proof -
  have "collect not_json_entry (take 5 cands) =
          Inr (map (\<lambda>p. \<lparr>product_id = Some (cand_id p), rec_score = Some 70,
                          rec_reasoning =
                            Some (cand_name p @ '' - a solid choice in this category.'')\<rparr>)
                 (take 5 cands))"
    by (rule collect_total) (rule not_json_entry_value)
  with assms show ?thesis
    by (simp add: generate_recommendations_def min.commute)
qed

theorem C8_not_json_fallback_witness:
  "[candidate_of \<lparr>product = example_tv, score = 50\<rparr>] \<noteq> []
   \<and> explain_reply service_garbled ''best tv'' empty_query
        (take 10 [candidate_of \<lparr>product = example_tv, score = 50\<rparr>]) = NotJson
   \<and> generate_recommendations service_garbled ''best tv'' empty_query
        [candidate_of \<lparr>product = example_tv, score = 50\<rparr>] [] =
       (Inr \<lparr>ai_message = Some ''Here are some products that match your requirements:'',
             ai_recommendations =
               Some [\<lparr>product_id = Some ''hisense-55-uled-tv-000'', rec_score = Some 70,
                      rec_reasoning =
                        Some ''Hisense 55 ULED TV - a solid choice in this category.''\<rparr>]\<rparr>,
        [ExplainCall ''best tv'' empty_query [candidate_of \<lparr>product = example_tv, score = 50\<rparr>]])"
proof -
  have a: "[candidate_of \<lparr>product = example_tv, score = 50\<rparr>] \<noteq> []"
    by simp
  have b: "explain_reply service_garbled ''best tv'' empty_query
             (take 10 [candidate_of \<lparr>product = example_tv, score = 50\<rparr>]) = NotJson"
    by (simp add: service_garbled_def)
  from a b C8_not_json_fallback [OF a b, of "[]"] show ?thesis
    by (simp add: candidate_of_def example_tv_def)
qed

section \<open>A category that is not recognized\<close>

text \<open>
  Claim C9. For every category string that, case ignored, is not the value of a member
  of the enumeration, the filter of the catalog store and the filter of the orchestrator
  return the products unfiltered: the store's filter with no brands returns the whole
  catalog, with brands it returns what it returns with no category, and the
  orchestrator's returns the whole catalog. Both return a list for every input.
\<close>

theorem C9_unrecognized_category_is_no_filter:
  assumes "lower c \<notin> set (map category_value all_categories)"
  shows "filter_products catalog (Some c) None = catalog
         \<and> filter_products catalog (Some c) brands = filter_products catalog None brands
         \<and> engine_filter_products catalog (parsed\<lparr>category_q := Some c\<rparr>) = catalog"
  using ProductCategory_of_unknown [OF assms]
  by (simp add: filter_products_def engine_filter_products_def)

theorem C9_unrecognized_category_is_no_filter_witness:
  "lower ''Laptop'' \<notin> set (map category_value all_categories)
   \<and> filter_products [example_tv, example_ac] (Some ''Laptop'') None = [example_tv, example_ac]
   \<and> engine_filter_products [example_tv, example_ac] (empty_query\<lparr>category_q := Some ''Laptop''\<rparr>)
       = [example_tv, example_ac]"
proof -
  have h: "lower ''Laptop'' \<notin> set (map category_value all_categories)"
    by code_simp
  from h C9_unrecognized_category_is_no_filter [OF h, of "[example_tv, example_ac]" None empty_query]
  show ?thesis
    by simp
qed

section \<open>The search for the empty string\<close>

text \<open>
  Claim C10. Searching the catalog for the empty string returns the catalog itself:
  every product, once, in catalog order.
\<close>

theorem C10_search_empty_string: "search_products catalog [] = catalog"
  by (simp add: search_products_def lower_empty search_loop_empty_query)

end
